theory Spec2Isabelle
  imports Main
begin

section \<open>Data model\<close>

text \<open>
  The notebook \<^verbatim>\<open>sagemaker_core_overview.ipynb\<close> talks to the SageMaker control plane
  through a boto3 client. Its cells have no functions with results: what they do is call
  the control plane, print and sleep. The model therefore records these effects, in the
  order in which they happen, as a list of events, and gives the control plane as a
  parameter: the answer to the \<open>n\<close>-th call of an operation, given its arguments.

  boto3 parses every answer against the service model, so the members of an answer have
  fixed types; an optional member may be absent. \<^verbatim>\<open>TrainingJobStatus\<close> is a required
  member of a describe answer and \<^verbatim>\<open>FailureReason\<close> an optional one;
  \<^verbatim>\<open>TrainingJobSummaries\<close> is required in a list answer and \<^verbatim>\<open>NextToken\<close> optional.
  Subscripting an absent key raises \<^verbatim>\<open>KeyError\<close>. A call of the control plane may
  raise instead of answering (\<^verbatim>\<open>ClientError\<close>).

  \<^verbatim>\<open>print\<close> is not the builtin: the setup cell rebinds it with
  \<^verbatim>\<open>from rich import print\<close>, and the later cells run after it. rich reads its
  argument as console markup: it may write something else than the text it is given, and
  it raises \<^verbatim>\<open>MarkupError\<close> on a closing tag that closes nothing.
\<close>

datatype error = KeyError string | MarkupError string | ClientError string

datatype outcome = Returned | Raised error

record describe_response =
  TrainingJobStatus :: string
  FailureReason :: "string option"

text \<open>
  An entry of \<^verbatim>\<open>TrainingJobSummaries\<close>; \<open>SummaryStatus\<close> is its key
  \<^verbatim>\<open>"TrainingJobStatus"\<close>.
\<close>

record training_job_summary =
  TrainingJobName :: string
  SummaryStatus :: string

record list_response =
  TrainingJobSummaries :: "training_job_summary list"
  NextToken :: "string option"

text \<open>
  A Python object as far as the sweep of the last cell looks at it: its identity, the
  names \<^verbatim>\<open>hasattr\<close> finds on it, and \<^verbatim>\<open>obj.__class__.__module__\<close>.
\<close>

record pyobj =
  ident :: nat
  attributes :: "string list"
  class_module :: string

text \<open>
  The effects of the cells: \<open>Describe name\<close> is a call of
  \<^verbatim>\<open>client.describe_training_job(TrainingJobName=name)\<close>;
  \<open>ListTrainingJobs t tok\<close> a call of \<^verbatim>\<open>client.list_training_jobs\<close> with
  \<^verbatim>\<open>CreationTimeAfter=t\<close> and, when \<open>tok = Some s\<close>, \<^verbatim>\<open>NextToken=s\<close>;
  \<open>Print s e\<close> is a \<^verbatim>\<open>print\<close> that has returned, having written the text \<open>s\<close>
  and then the end string \<open>e\<close>; \<open>Sleep d\<close> is \<^verbatim>\<open>time.sleep(d)\<close>;
  \<open>Delete obj\<close> is \<^verbatim>\<open>obj.delete()\<close>.
\<close>

datatype event =
    Describe string
  | ListTrainingJobs int "string option"
  | Print string string
  | Sleep nat
  | Delete pyobj

definition newline :: string where
  "newline = [CHR 0x0A]"

section \<open>Waiting for a training job with boto3\<close>

text \<open>
  \<^verbatim>\<open>
  while True:
      response = client.describe_training_job(TrainingJobName=job_name_boto)
      status = response["TrainingJobStatus"]
      if status in ["Failed", "Completed", "Stopped"]:
          if status == "Failed":
              print(response["FailureReason"])
          break
      print("-", end="")
      time.sleep(5)
  \<close>
  The loop may run forever, so \<open>wait_loop\<close> takes fuel: one unit per iteration. With no
  fuel left the loop is still running, which is the outcome \<open>None\<close>, and the events so
  far are the beginning of the run. \<open>n\<close> counts the describe calls made so far.

  rich's \<^verbatim>\<open>print\<close> is not code of the notebook. What it does with the failure reason
  is the parameter \<open>rich_print\<close>: the error it raises, or the text it writes before the
  end string. The text \<^verbatim>\<open>-\<close> of the other \<^verbatim>\<open>print\<close> is a constant of the loop with
  no markup in it (no bracket, no emoji code), which rich writes as it is.
\<close>

type_synonym printer = "string \<Rightarrow> error + string"

type_synonym describe_call = "nat \<Rightarrow> string \<Rightarrow> error + describe_response"

fun wait_loop ::
  "nat \<Rightarrow> printer \<Rightarrow> describe_call \<Rightarrow> string \<Rightarrow> nat \<Rightarrow> event list
     \<Rightarrow> outcome option \<times> event list"
where
  "wait_loop 0 rich_print describe_training_job job_name_boto n tr = (None, tr)"
| "wait_loop (Suc fuel) rich_print describe_training_job job_name_boto n tr =
    (let tr1 = tr @ [Describe job_name_boto]
     in case describe_training_job n job_name_boto of
          Inl e \<Rightarrow> (Some (Raised e), tr1)
        | Inr response \<Rightarrow>
           (let status = TrainingJobStatus response
            in if status \<in> set [''Failed'', ''Completed'', ''Stopped'']
               then (if status = ''Failed''
                     then (case FailureReason response of
                             None \<Rightarrow> (Some (Raised (KeyError ''FailureReason'')), tr1)
                           | Some reason \<Rightarrow>
                              (case rich_print reason of
                                 Inl e \<Rightarrow> (Some (Raised e), tr1)
                               | Inr written \<Rightarrow> (Some Returned, tr1 @ [Print written newline])))
                     else (Some Returned, tr1))
               else wait_loop fuel rich_print describe_training_job job_name_boto (Suc n)
                      (tr1 @ [Print ''-'' '''', Sleep 5])))"

declare wait_loop.simps(2) [simp del]

text \<open>
  A control plane that answers every describe call is a sequence of snapshots, and
  \<open>wait\<close> is the loop on such a control plane.
\<close>

type_synonym describe_client = "nat \<Rightarrow> string \<Rightarrow> describe_response"

definition answering :: "describe_client \<Rightarrow> describe_call" where
  "answering client n name = Inr (client n name)"

definition wait ::
  "nat \<Rightarrow> printer \<Rightarrow> describe_client \<Rightarrow> string \<Rightarrow> outcome option \<times> event list"
where
  "wait fuel rich_print client job_name_boto =
     wait_loop fuel rich_print (answering client) job_name_boto 0 []"

section \<open>Listing training jobs with NextToken\<close>

text \<open>
  \<^verbatim>\<open>
  next_token = None
  while True:
      if next_token:
          response = client.list_training_jobs(
              CreationTimeAfter=creation_time_after, NextToken=next_token)
      else:
          response = client.list_training_jobs(CreationTimeAfter=creation_time_after)
      for job in response["TrainingJobSummaries"]:
          print(job["TrainingJobName"], job["TrainingJobStatus"])
      next_token = response.get("NextToken")
      if not next_token:
          break
  \<close>
  \<^verbatim>\<open>if next_token\<close> is Python's truth test: \<^verbatim>\<open>None\<close> and the empty string are
  false, every other string is true. The names and statuses of the jobs that the service
  lists are made of letters, digits and hyphens, which rich writes as they are; the
  control plane of \<open>list_loop\<close> answers every list call.
\<close>

type_synonym list_client = "nat \<Rightarrow> int \<Rightarrow> string option \<Rightarrow> list_response"

definition truthy :: "string option \<Rightarrow> bool" where
  "truthy next_token = (case next_token of None \<Rightarrow> False | Some s \<Rightarrow> s \<noteq> [])"

definition print_job :: "training_job_summary \<Rightarrow> event" where
  "print_job job = Print (TrainingJobName job @ '' '' @ SummaryStatus job) newline"

fun list_loop ::
  "nat \<Rightarrow> list_client \<Rightarrow> int \<Rightarrow> nat \<Rightarrow> string option \<Rightarrow> event list \<Rightarrow> outcome option \<times> event list"
where
  "list_loop 0 client creation_time_after n next_token tr = (None, tr)"
| "list_loop (Suc fuel) client creation_time_after n next_token tr =
    (let request_token = (if truthy next_token then next_token else None);
         response = client n creation_time_after request_token;
         tr1 = tr @ [ListTrainingJobs creation_time_after request_token]
                  @ map print_job (TrainingJobSummaries response);
         next_token' = NextToken response
     in if \<not> truthy next_token' then (Some Returned, tr1)
        else list_loop fuel client creation_time_after (Suc n) next_token' tr1)"

declare list_loop.simps(2) [simp del]

definition list_jobs :: "nat \<Rightarrow> list_client \<Rightarrow> int \<Rightarrow> outcome option \<times> event list" where
  "list_jobs fuel client creation_time_after = list_loop fuel client creation_time_after 0 None []"

section \<open>Deleting all SageMaker resources\<close>

text \<open>
  \<^verbatim>\<open>
  def delete_all_sagemaker_resources():
      all_objects = list(locals().values()) + list(globals().values())
      deletable_objects = [
          obj
          for obj in all_objects
          if hasattr(obj, "delete") and obj.__class__.__module__ == "sagemaker_core.main.resources"
      ]
      for obj in deletable_objects:
          obj.delete()
  \<close>
  A namespace is a dict from names to objects, in insertion order. A call pushes a frame
  for the callee on the stack of the frames of its callers; \<^verbatim>\<open>locals()\<close> is the
  namespace of the frame on top, and the namespace of the module where the stack is empty.
  The function has no parameters and evaluates \<^verbatim>\<open>locals()\<close> before it binds its first
  local, so its frame is empty then. A \<^verbatim>\<open>delete()\<close> that raises ends the sweep.
\<close>

type_synonym namespace = "(string \<times> pyobj) list"

definition values_of :: "namespace \<Rightarrow> pyobj list" where
  "values_of ns = map snd ns"

definition hasattr :: "pyobj \<Rightarrow> string \<Rightarrow> bool" where
  "hasattr obj name \<longleftrightarrow> name \<in> set (attributes obj)"

definition py_locals :: "namespace list \<Rightarrow> namespace \<Rightarrow> namespace" where
  "py_locals stack globals = (case stack of [] \<Rightarrow> globals | frame # _ \<Rightarrow> frame)"

fun delete_each ::
  "(pyobj \<Rightarrow> error option) \<Rightarrow> pyobj list \<Rightarrow> event list \<Rightarrow> outcome \<times> event list"
where
  "delete_each delete [] tr = (Returned, tr)"
| "delete_each delete (obj # objs) tr =
     (case delete obj of
        Some e \<Rightarrow> (Raised e, tr @ [Delete obj])
      | None \<Rightarrow> delete_each delete objs (tr @ [Delete obj]))"

definition delete_all_body ::
  "namespace list \<Rightarrow> namespace \<Rightarrow> (pyobj \<Rightarrow> error option) \<Rightarrow> outcome \<times> event list"
where
  "delete_all_body stack globals delete =
     (let all_objects = values_of (py_locals stack globals) @ values_of globals;
          deletable_objects =
            filter (\<lambda>obj. hasattr obj ''delete'' \<and>
                           class_module obj = ''sagemaker_core.main.resources'')
                   all_objects
      in delete_each delete deletable_objects [])"

definition delete_all_sagemaker_resources ::
  "namespace list \<Rightarrow> namespace \<Rightarrow> (pyobj \<Rightarrow> error option) \<Rightarrow> outcome \<times> event list"
where
  "delete_all_sagemaker_resources callers globals delete =
     delete_all_body ([] # callers) globals delete"

section \<open>Observations on runs\<close>

text \<open>
  What the properties below say about a run, read off its events. The terminal statuses
  are the three of the \<^verbatim>\<open>in\<close> test of the wait loop.
\<close>

definition terminal :: "describe_response \<Rightarrow> bool" where
  "terminal r \<longleftrightarrow> TrainingJobStatus r \<in> {''Failed'', ''Completed'', ''Stopped''}"

text \<open>The events of one iteration that goes on polling, and of the iteration that ends the loop.\<close>

definition poll_round :: "string \<Rightarrow> event list" where
  "poll_round job = [Describe job, Print ''-'' '''', Sleep 5]"

definition final_round ::
  "string \<Rightarrow> printer \<Rightarrow> describe_response \<Rightarrow> outcome option \<times> event list"
where
  "final_round job rich_print r =
     (if TrainingJobStatus r = ''Failed''
      then (case FailureReason r of
              None \<Rightarrow> (Some (Raised (KeyError ''FailureReason'')), [Describe job])
            | Some reason \<Rightarrow>
               (case rich_print reason of
                  Inl e \<Rightarrow> (Some (Raised e), [Describe job])
                | Inr written \<Rightarrow> (Some Returned, [Describe job, Print written newline])))
      else (Some Returned, [Describe job]))"

fun is_Describe :: "event \<Rightarrow> bool" where
  "is_Describe (Describe _) = True"
| "is_Describe _ = False"

definition describe_calls :: "event list \<Rightarrow> nat" where
  "describe_calls tr = length (filter is_Describe tr)"

definition is_Sleep :: "event \<Rightarrow> bool" where
  "is_Sleep e = (case e of Sleep _ \<Rightarrow> True | _ \<Rightarrow> False)"

text \<open>
  \<open>polls_spaced slept tr\<close>: every describe call of \<open>tr\<close> comes after a sleep of positive
  duration that follows the describe call before it; \<open>slept\<close> says whether such a sleep
  has happened since the last describe call.
\<close>

fun polls_spaced :: "bool \<Rightarrow> event list \<Rightarrow> bool" where
  "polls_spaced slept [] = True"
| "polls_spaced slept (Describe j # es) = (slept \<and> polls_spaced False es)"
| "polls_spaced slept (Sleep d # es) = polls_spaced (slept \<or> 0 < d) es"
| "polls_spaced slept (e # es) = polls_spaced slept es"

definition no_busy_loop :: "event list \<Rightarrow> bool" where
  "no_busy_loop tr = polls_spaced True tr"

definition after_last_describe :: "event list \<Rightarrow> event list" where
  "after_last_describe tr = rev (takeWhile (\<lambda>e. \<not> is_Describe e) (rev tr))"

text \<open>The cursors of the list calls of a run, the number of list calls, and the lines printed.\<close>

fun call_tokens :: "event list \<Rightarrow> string option list" where
  "call_tokens [] = []"
| "call_tokens (ListTrainingJobs c t # es) = t # call_tokens es"
| "call_tokens (e # es) = call_tokens es"

definition list_calls :: "event list \<Rightarrow> nat" where
  "list_calls tr = length (call_tokens tr)"

fun printed :: "event list \<Rightarrow> event list" where
  "printed [] = []"
| "printed (Print s e # es) = Print s e # printed es"
| "printed (e # es) = printed es"







text \<open>The objects on which the sweep called \<^verbatim>\<open>delete()\<close>, in order.\<close>

fun deleted :: "event list \<Rightarrow> pyobj list" where
  "deleted [] = []"
| "deleted (Delete obj # es) = obj # deleted es"
| "deleted (e # es) = deleted es"

section \<open>Example control planes\<close>

text \<open>
  What rich's \<^verbatim>\<open>print\<close> does with the texts of the examples below: for the tag
  \<^verbatim>\<open>[b]\<close> it writes nothing but the end string; on the closing tag of
  \<^verbatim>\<open>no data in [/opt/ml/input/data/train]\<close>, which closes nothing, it raises
  \<^verbatim>\<open>MarkupError\<close>; the empty text and \<^verbatim>\<open>AlgorithmError\<close> it writes as they are.
\<close>

definition sample_rich_print :: printer where
  "sample_rich_print s =
     (if s = ''[b]'' then Inr []
      else if s = ''no data in [/opt/ml/input/data/train]''
      then Inl (MarkupError ''[/opt/ml/input/data/train]'')
      else Inr s)"

text \<open>A job that is in progress at the first three describe calls and completed from then on.\<close>

definition in_progress_then_completed :: describe_client where
  "in_progress_then_completed n job =
     (if n < 3 then \<lparr>TrainingJobStatus = ''InProgress'', FailureReason = None\<rparr>
      else \<lparr>TrainingJobStatus = ''Completed'', FailureReason = None\<rparr>)"




definition empty_collection :: list_client where
  "empty_collection n cta tok = \<lparr>TrainingJobSummaries = [], NextToken = None\<rparr>"


definition resource :: "nat \<Rightarrow> pyobj" where
  "resource n = \<lparr>ident = n, attributes = [''delete'', ''refresh'', ''wait''],
                 class_module = ''sagemaker_core.main.resources''\<rparr>"

section \<open>The wait loop: shape of its runs\<close>

text \<open>A describe call that raises ends the loop with its error, whatever came before.\<close>

lemma wait_loop_describe_raises:
  "describe_training_job n job = Inl e \<Longrightarrow>
   wait_loop (Suc fuel) rich_print describe_training_job job n tr =
   (Some (Raised e), tr @ [Describe job])"
  by (simp add: wait_loop.simps(2))

lemma wait_loop_step:
  "\<not> terminal (client n job) \<Longrightarrow>
   wait_loop (Suc fuel) rich_print (answering client) job n tr =
   wait_loop fuel rich_print (answering client) job (Suc n) (tr @ poll_round job)"
  by (simp add: wait_loop.simps(2) answering_def terminal_def poll_round_def)

lemma wait_loop_stop:
  "terminal (client n job) \<Longrightarrow>
   wait_loop (Suc fuel) rich_print (answering client) job n tr =
   (fst (final_round job rich_print (client n job)), tr @ snd (final_round job rich_print (client n job)))"
  by (simp add: wait_loop.simps(2) answering_def terminal_def final_round_def
        split: option.split sum.split)

lemma wait_loop_skip:
  "\<forall>i<k. \<not> terminal (client (n + i) job) \<Longrightarrow>
   wait_loop (k + fuel) rich_print (answering client) job n tr =
   wait_loop fuel rich_print (answering client) job (n + k) (tr @ concat (replicate k (poll_round job)))"
proof (induction k arbitrary: n tr)
  case 0
  then show ?case by simp
next
  case (Suc k)
  have nt: "\<not> terminal (client n job)"
    using Suc.prems [rule_format, of 0] by simp
  have rest: "\<forall>i<k. \<not> terminal (client (Suc n + i) job)"
  proof (intro allI impI)
    fix i assume "i < k"
    then show "\<not> terminal (client (Suc n + i) job)"
      using Suc.prems [rule_format, of "Suc i"] by simp
  qed
  have "wait_loop (Suc k + fuel) rich_print (answering client) job n tr =
        wait_loop (k + fuel) rich_print (answering client) job (Suc n) (tr @ poll_round job)"
    using wait_loop_step [of client n job "k + fuel" rich_print tr] nt by simp
  also have "\<dots> = wait_loop fuel rich_print (answering client) job (Suc n + k)
                     ((tr @ poll_round job) @ concat (replicate k (poll_round job)))"
    by (rule Suc.IH [OF rest])
  finally show ?case by simp
qed

lemma wait_running:
  assumes "\<forall>i<fuel. \<not> terminal (client i job)"
  shows "wait fuel rich_print client job = (None, concat (replicate fuel (poll_round job)))"
proof -
  have "wait_loop (fuel + 0) rich_print (answering client) job 0 [] =
        wait_loop 0 rich_print (answering client) job (0 + fuel) ([] @ concat (replicate fuel (poll_round job)))"
    by (rule wait_loop_skip) (simp add: assms)
  then show ?thesis by (simp add: wait_def)
qed

lemma wait_finished:
  assumes "\<forall>i<k. \<not> terminal (client i job)" "terminal (client k job)" "k < fuel"
  shows "wait fuel rich_print client job =
         (fst (final_round job rich_print (client k job)),
          concat (replicate k (poll_round job)) @ snd (final_round job rich_print (client k job)))"
proof -
  define m where "m = fuel - Suc k"
  have m: "fuel = k + Suc m"
    using \<open>k < fuel\<close> by (simp add: m_def)
  have "wait_loop (k + Suc m) rich_print (answering client) job 0 [] =
        wait_loop (Suc m) rich_print (answering client) job (0 + k) ([] @ concat (replicate k (poll_round job)))"
    by (rule wait_loop_skip) (simp add: assms(1))
  also have "\<dots> = (fst (final_round job rich_print (client k job)),
          concat (replicate k (poll_round job)) @ snd (final_round job rich_print (client k job)))"
    using wait_loop_stop [of client k job m rich_print "concat (replicate k (poll_round job))"] assms(2)
    by simp
  finally show ?thesis by (simp only: wait_def m)
qed

lemma wait_shape:
  "wait fuel rich_print client job = (None, concat (replicate fuel (poll_round job))) \<and>
     (\<forall>i<fuel. \<not> terminal (client i job))
   \<or> (\<exists>k<fuel. terminal (client k job) \<and> (\<forall>i<k. \<not> terminal (client i job)) \<and>
        wait fuel rich_print client job =
          (fst (final_round job rich_print (client k job)),
           concat (replicate k (poll_round job)) @ snd (final_round job rich_print (client k job))))"
proof (cases "\<exists>i<fuel. terminal (client i job)")
  case False
  then have "\<forall>i<fuel. \<not> terminal (client i job)" by blast
  then show ?thesis using wait_running by blast
next
  case True
  define k where "k = (LEAST i. terminal (client i job))"
  from True obtain i where i: "i < fuel" "terminal (client i job)" by blast
  have tk: "terminal (client k job)"
    unfolding k_def using i(2) by (rule LeastI)
  have "k \<le> i" unfolding k_def using i(2) by (rule Least_le)
  then have kf: "k < fuel" using i(1) by simp
  have before: "\<forall>j<k. \<not> terminal (client j job)"
    unfolding k_def using not_less_Least by blast
  show ?thesis using wait_finished [of k client job fuel rich_print] tk before kf by blast
qed


lemma describe_calls_append: "describe_calls (xs @ ys) = describe_calls xs + describe_calls ys"
  by (simp add: describe_calls_def)

lemma describe_calls_rounds: "describe_calls (concat (replicate k (poll_round job))) = k"
  by (induction k) (simp_all add: describe_calls_def poll_round_def)


lemma polls_spaced_round:
  "polls_spaced b (poll_round job @ es) = (b \<and> polls_spaced True es)"
  by (simp add: poll_round_def)

lemma polls_spaced_rounds:
  "polls_spaced b (concat (replicate k (poll_round job)) @ es) =
     (if k = 0 then polls_spaced b es else b \<and> polls_spaced True es)"
  by (induction k arbitrary: b) (auto simp: polls_spaced_round)

lemma polls_spaced_final: "polls_spaced True (snd (final_round job rich_print r))"
  by (simp add: final_round_def split: option.split sum.split)

lemma after_last_describe_final:
  "filter is_Sleep (after_last_describe (xs @ snd (final_round job rich_print r))) = []"
  by (simp add: after_last_describe_def final_round_def is_Sleep_def split: option.split sum.split)

lemma wait_example:
  "wait 10 sample_rich_print in_progress_then_completed ''job'' =
     (Some Returned, concat (replicate 3 (poll_round ''job'')) @ [Describe ''job''])"
proof -
  have "wait 10 sample_rich_print in_progress_then_completed ''job'' =
     (fst (final_round ''job'' sample_rich_print (in_progress_then_completed 3 ''job'')),
          concat (replicate 3 (poll_round ''job'')) @
          snd (final_round ''job'' sample_rich_print (in_progress_then_completed 3 ''job'')))"
    by (rule wait_finished) (simp_all add: terminal_def in_progress_then_completed_def)
  then show ?thesis
    by (simp add: final_round_def in_progress_then_completed_def)
qed

lemma in_progress_not_terminal:
  "TrainingJobStatus r = ''InProgress'' \<Longrightarrow> \<not> terminal r"
  by (simp add: terminal_def)

section \<open>The wait loop: properties\<close>



text \<open>
  Claim C5. When the snapshots are \<open>k\<close> times InProgress and then Completed, with
  \<open>k < N\<close>, the wait loop run for up to \<open>N\<close> polls returns without error after exactly
  \<open>k + 1\<close> describe calls: \<open>k\<close> rounds of describe, print and sleep, then the describe
  call that observes Completed, which is the last event of the run.
\<close>

theorem wait_in_progress_then_completed:
  assumes "\<forall>i<k. TrainingJobStatus (client i job) = ''InProgress''"
    and "TrainingJobStatus (client k job) = ''Completed''"
    and "k < N"
  shows "wait N rich_print client job =
           (Some Returned, concat (replicate k (poll_round job)) @ [Describe job]) \<and>
         describe_calls (snd (wait N rich_print client job)) = Suc k \<and>
         last (snd (wait N rich_print client job)) = Describe job"
proof -
  have before: "\<forall>i<k. \<not> terminal (client i job)"
    using assms(1) in_progress_not_terminal by blast
  have tk: "terminal (client k job)"
    using assms(2) by (simp add: terminal_def)
  have fr: "final_round job rich_print (client k job) = (Some Returned, [Describe job])"
    using assms(2) by (simp add: final_round_def)
  have run: "wait N rich_print client job =
           (Some Returned, concat (replicate k (poll_round job)) @ [Describe job])"
    using wait_finished [of k client job N rich_print] before tk assms(3) by (simp add: fr)
  have one: "describe_calls [Describe job] = 1"
    by (simp add: describe_calls_def)
  show ?thesis
    by (simp add: run describe_calls_append describe_calls_rounds one)
qed

text \<open>C5 with \<open>k = 3\<close> and \<open>N = 10\<close>.\<close>

theorem wait_in_progress_then_completed_witness:
  "wait 10 sample_rich_print in_progress_then_completed ''job'' =
     (Some Returned,
      [Describe ''job'', Print ''-'' '''', Sleep 5,
       Describe ''job'', Print ''-'' '''', Sleep 5,
       Describe ''job'', Print ''-'' '''', Sleep 5,
       Describe ''job'']) \<and>
   describe_calls (snd (wait 10 sample_rich_print in_progress_then_completed ''job'')) = 4 \<and>
   last (snd (wait 10 sample_rich_print in_progress_then_completed ''job'')) = Describe ''job''"
proof -
  have before: "\<forall>i<3. TrainingJobStatus (in_progress_then_completed i ''job'') = ''InProgress''"
    by (simp add: in_progress_then_completed_def)
  have at: "TrainingJobStatus (in_progress_then_completed 3 ''job'') = ''Completed''"
    by (simp add: in_progress_then_completed_def)
  have lt: "(3::nat) < 10" by simp
  note run = wait_in_progress_then_completed
         [of 3 in_progress_then_completed "''job''" 10 sample_rich_print, OF before at lt]
  have events: "wait 10 sample_rich_print in_progress_then_completed ''job'' =
     (Some Returned,
      [Describe ''job'', Print ''-'' '''', Sleep 5,
       Describe ''job'', Print ''-'' '''', Sleep 5,
       Describe ''job'', Print ''-'' '''', Sleep 5,
       Describe ''job''])"
    using run [THEN conjunct1] by (simp add: poll_round_def numeral_3_eq_3)
  have calls: "describe_calls (snd (wait 10 sample_rich_print in_progress_then_completed ''job'')) = 4"
    using run [THEN conjunct2, THEN conjunct1] by simp
  have final: "last (snd (wait 10 sample_rich_print in_progress_then_completed ''job'')) = Describe ''job''"
    using run [THEN conjunct2, THEN conjunct2] .
  from events calls final show ?thesis by (intro conjI)
qed

text \<open>
  Claim C8. The wait loop never busy-loops. In every run, finished or still going on,
  each describe call but the first comes after a sleep of positive duration that follows
  the describe call before it; and in a finished run no sleep follows the last describe
  call, the one that observed the terminal status.
\<close>

theorem wait_never_busy_loops:
  "no_busy_loop (snd (wait fuel rich_print client job)) \<and>
   (fst (wait fuel rich_print client job) \<noteq> None \<longrightarrow>
      filter is_Sleep (after_last_describe (snd (wait fuel rich_print client job))) = [])"
proof -
  from wait_shape [of fuel rich_print client job]
  consider
    (running) "wait fuel rich_print client job = (None, concat (replicate fuel (poll_round job)))"
  | (finished) k where "wait fuel rich_print client job =
          (fst (final_round job rich_print (client k job)),
           concat (replicate k (poll_round job)) @ snd (final_round job rich_print (client k job)))"
    by blast
  then show ?thesis
  proof cases
    case running
    have "polls_spaced True (concat (replicate fuel (poll_round job)) @ [])"
      by (simp only: polls_spaced_rounds) simp
    then show ?thesis by (simp add: running no_busy_loop_def)
  next
    case finished
    have "polls_spaced True
            (concat (replicate k (poll_round job)) @ snd (final_round job rich_print (client k job)))"
      by (simp only: polls_spaced_rounds) (simp add: polls_spaced_final)
    then show ?thesis
      by (simp add: finished no_busy_loop_def after_last_describe_final)
  qed
qed

text \<open>C8 on a finished run of four describe calls.\<close>

theorem wait_never_busy_loops_witness:
  "no_busy_loop (snd (wait 10 sample_rich_print in_progress_then_completed ''job'')) \<and>
   fst (wait 10 sample_rich_print in_progress_then_completed ''job'') \<noteq> None \<and>
   filter is_Sleep (after_last_describe (snd (wait 10 sample_rich_print in_progress_then_completed ''job''))) = []"
proof -
  have fin: "fst (wait 10 sample_rich_print in_progress_then_completed ''job'') \<noteq> None"
    by (simp add: wait_example)
  show ?thesis
    using wait_never_busy_loops [of 10 sample_rich_print in_progress_then_completed "''job''"] fin by blast
qed




section \<open>The listing loop: shape of its runs\<close>



















section \<open>The listing loop: properties\<close>







text \<open>
  Claim C7. When the answer to the first list call has no jobs and no cursor, the listing
  loop prints nothing and ends after exactly one list call.
\<close>

theorem list_empty_collection:
  assumes "client 0 cta None = \<lparr>TrainingJobSummaries = [], NextToken = None\<rparr>"
    and "0 < fuel"
  shows "list_jobs fuel client cta = (Some Returned, [ListTrainingJobs cta None]) \<and>
         printed (snd (list_jobs fuel client cta)) = [] \<and>
         list_calls (snd (list_jobs fuel client cta)) = 1"
proof -
  define m where "m = fuel - 1"
  have fuel: "fuel = Suc m"
    using \<open>0 < fuel\<close> by (simp add: m_def)
  have run: "list_jobs fuel client cta = (Some Returned, [ListTrainingJobs cta None])"
    by (simp add: list_jobs_def fuel list_loop.simps(2) truthy_def assms(1))
  show ?thesis
    by (simp add: run list_calls_def)
qed

text \<open>C7 on the control plane with the empty collection.\<close>

theorem list_empty_collection_witness:
  "list_jobs 5 empty_collection 0 = (Some Returned, [ListTrainingJobs 0 None]) \<and>
   printed (snd (list_jobs 5 empty_collection 0)) = [] \<and>
   list_calls (snd (list_jobs 5 empty_collection 0)) = 1"
  by (rule list_empty_collection) (simp_all add: empty_collection_def)

section \<open>The deletion sweep\<close>

lemma deleted_append: "deleted (xs @ ys) = deleted xs @ deleted ys"
  by (induction xs rule: deleted.induct) simp_all

lemma delete_each_subset:
  "set (deleted (snd (delete_each delete objs tr))) \<subseteq> set (deleted tr) \<union> set objs"
proof (induction objs arbitrary: tr)
  case Nil
  then show ?case by simp
next
  case (Cons obj objs)
  show ?case
  proof (cases "delete obj")
    case None
    then show ?thesis using Cons.IH [of "tr @ [Delete obj]"]
      by (auto simp: deleted_append)
  next
    case (Some e)
    then show ?thesis by (auto simp: deleted_append)
  qed
qed

text \<open>
  Claim C10. In every execution of \<^verbatim>\<open>delete_all_sagemaker_resources()\<close>, whatever the
  frames of its callers hold, \<^verbatim>\<open>locals()\<close> is the function's own empty frame: every
  object on which \<^verbatim>\<open>delete()\<close> is called is a value of a global binding, and an object
  bound in a caller's frame and to no global name is never deleted.
\<close>

theorem delete_sweep_globals_only:
  "set (deleted (snd (delete_all_sagemaker_resources callers globals delete)))
     \<subseteq> set (values_of globals) \<and>
   (\<forall>frame obj. frame \<in> set callers \<longrightarrow> obj \<in> set (values_of frame) \<longrightarrow>
        obj \<notin> set (values_of globals) \<longrightarrow>
        obj \<notin> set (deleted (snd (delete_all_sagemaker_resources callers globals delete))))"
proof -
  have sub: "set (deleted (snd (delete_all_sagemaker_resources callers globals delete)))
     \<subseteq> set (values_of globals)"
    using delete_each_subset
      [of delete "filter (\<lambda>obj. hasattr obj ''delete'' \<and>
                           class_module obj = ''sagemaker_core.main.resources'')
                   (values_of globals)" "[]"]
    by (auto simp: delete_all_sagemaker_resources_def delete_all_body_def py_locals_def values_of_def)
  then show ?thesis by blast
qed

text \<open>C10 with a resource bound only in the frame of a caller and another bound globally.\<close>

theorem delete_sweep_globals_only_witness:
  "resource 2 \<in> set (values_of [(''training_job'', resource 2)]) \<and>
   resource 2 \<notin> set (values_of [(''kept'', resource 1)]) \<and>
   resource 2 \<notin> set (deleted (snd (delete_all_sagemaker_resources
       [[(''training_job'', resource 2)]] [(''kept'', resource 1)] (\<lambda>obj. None)))) \<and>
   deleted (snd (delete_all_sagemaker_resources
       [[(''training_job'', resource 2)]] [(''kept'', resource 1)] (\<lambda>obj. None))) = [resource 1]"
proof -
  have a: "resource 2 \<in> set (values_of [(''training_job'', resource 2)])"
    by (simp add: values_of_def)
  have b: "resource 2 \<notin> set (values_of [(''kept'', resource 1)])"
    by (simp add: values_of_def resource_def)
  have c: "deleted (snd (delete_all_sagemaker_resources
       [[(''training_job'', resource 2)]] [(''kept'', resource 1)] (\<lambda>obj. None))) = [resource 1]"
    by (simp add: delete_all_sagemaker_resources_def delete_all_body_def py_locals_def
          values_of_def hasattr_def resource_def)
  from delete_sweep_globals_only
    [of "[[(''training_job'', resource 2)]]" "[(''kept'', resource 1)]" "\<lambda>obj. None"] a b
  have "resource 2 \<notin> set (deleted (snd (delete_all_sagemaker_resources
       [[(''training_job'', resource 2)]] [(''kept'', resource 1)] (\<lambda>obj. None))))"
    by simp
  with a b c show ?thesis by blast
qed

end
